theory Spec2Isabelle
  imports Complex_Main "HOL-Library.Multiset"
begin

section \<open>Data model\<close>

text \<open>
  The service of \<^verbatim>\<open>src/server.js\<close> keeps one Mongoose model, \<^verbatim>\<open>Book\<close>.
  Its schema declares ten fields, each \<^verbatim>\<open>Number\<close> or \<^verbatim>\<open>String\<close>.
  A JavaScript number is modelled by its exact rational value: rounding to a double,
  overflow to an infinity and the sign of zero are outside this model.
  A string is a list of 8-bit characters; the functions below are total on all of them
  and describe JavaScript on ASCII text.
\<close>

record book =
  bookID :: rat
  title :: string
  authors :: string
  average_rating :: rat
  isbn :: string
  isbn13 :: rat
  language_code :: string
  num_pages :: rat
  ratings_count :: rat
  text_reviews_count :: rat

text \<open>
  What \<^verbatim>\<open>res.json\<close> and \<^verbatim>\<open>res.send\<close> are given in the source: an array of
  books, one book, a string, the object \<^verbatim>\<open>{ error: ... }\<close>, or plain text.
\<close>

datatype body =
    JBooks "book list"
  | JBook book
  | JString string
  | JError string
  | Text string

record response =
  status :: nat
  payload :: body

text \<open>
  Everything a handler can throw. In an \<^verbatim>\<open>async\<close> handler a throw outside
  \<^verbatim>\<open>try\<close> rejects the handler's promise; Express 4 does not observe it, so
  nothing more is written to the client.
\<close>

datatype js_error =
    CastError                \<comment> \<open>Mongoose: a query value does not fit the schema type\<close>
  | SyntaxError              \<comment> \<open>\<^verbatim>\<open>new RegExp\<close>: the pattern is not well formed\<close>
  | StoreError               \<comment> \<open>the query's promise rejects: the store cannot answer\<close>
  | ERR_HTTP_HEADERS_SENT    \<comment> \<open>a second write to a response already sent\<close>
  | OutsideModel             \<comment> \<open>a pattern this model does not interpret\<close>

text \<open>
  The store is the collection in its native order, or it is in a state in which every
  query is rejected. The response object holds the status code set so far (200 at the
  start) and the response written, if any.
\<close>

datatype store_state = Available "book list" | Unavailable

record res_state =
  statusCode :: nat
  sent :: "response option"

record world =
  store :: store_state
  res :: res_state

definition fresh_res :: res_state where
  "fresh_res = \<lparr>statusCode = 200, sent = None\<rparr>"

definition incoming :: "store_state \<Rightarrow> world" where
  "incoming db = \<lparr>store = db, res = fresh_res\<rparr>"


section \<open>Effects of a handler\<close>

text \<open>
  A handler runs against the world and either returns or throws; a throw keeps what was
  written before it. \<open>bind_io\<close> is the sequencing of two statements (an \<^verbatim>\<open>await\<close>
  included), \<open>try_catch\<close> the \<^verbatim>\<open>try { ... } catch (err) { ... }\<close> block.
\<close>

type_synonym 'a io = "world \<Rightarrow> (js_error + 'a) \<times> world"

definition return_io :: "'a \<Rightarrow> 'a io" where
  "return_io x w = (Inr x, w)"

definition throw_io :: "js_error \<Rightarrow> 'a io" where
  "throw_io e w = (Inl e, w)"

definition bind_io :: "'a io \<Rightarrow> ('a \<Rightarrow> 'b io) \<Rightarrow> 'b io" where
  "bind_io m f w = (case m w of (Inl e, w') \<Rightarrow> (Inl e, w') | (Inr x, w') \<Rightarrow> f x w')"

definition try_catch :: "'a io \<Rightarrow> (js_error \<Rightarrow> 'a io) \<Rightarrow> 'a io" where
  "try_catch m h w = (case m w of (Inl e, w') \<Rightarrow> h e w' | (Inr x, w') \<Rightarrow> (Inr x, w'))"

subsection \<open>Express: the response object\<close>

text \<open>
  \<^verbatim>\<open>res.status(c)\<close> stores the code. \<^verbatim>\<open>res.json(v)\<close> and \<^verbatim>\<open>res.send(v)\<close>
  write the response with the code stored; on a response already written they throw
  \<^verbatim>\<open>ERR_HTTP_HEADERS_SENT\<close> and the client keeps the first response.
\<close>

definition res_status :: "nat \<Rightarrow> unit io" where
  "res_status c w = (Inr (), w\<lparr>res := (res w)\<lparr>statusCode := c\<rparr>\<rparr>)"

definition res_write :: "body \<Rightarrow> unit io" where
  "res_write v w =
     (case sent (res w) of
        Some r \<Rightarrow> (Inl ERR_HTTP_HEADERS_SENT, w)
      | None \<Rightarrow>
          (Inr (), w\<lparr>res := (res w)\<lparr>sent := Some \<lparr>status = statusCode (res w), payload = v\<rparr>\<rparr>\<rparr>))"

definition res_json :: "body \<Rightarrow> unit io" where
  "res_json v = res_write v"

definition res_send :: "string \<Rightarrow> unit io" where
  "res_send t = res_write (Text t)"

subsection \<open>JavaScript: \<^verbatim>\<open>Number(string)\<close>\<close>

text \<open>
  Mongoose casts a query value for a \<^verbatim>\<open>Number\<close> path with JavaScript's
  \<^verbatim>\<open>Number\<close>. On a string that is the \<^verbatim>\<open>StringToNumber\<close> operation of
  ECMAScript: white space is trimmed; the empty text is 0; the rest must be a decimal
  literal (optional sign, digits with an optional fraction and exponent, or
  \<^verbatim>\<open>Infinity\<close>) or an unsigned literal in base 16, 8 or 2; anything else is NaN.
\<close>

datatype number = NaN | Num rat | PosInfinity | NegInfinity

definition is_space :: "char \<Rightarrow> bool" where
  "is_space c = ((of_char c :: nat) \<in> set [9, 10, 11, 12, 13, 32, 160])"

definition trim :: "string \<Rightarrow> string" where
  "trim s = rev (dropWhile is_space (rev (dropWhile is_space s)))"

definition is_digit :: "char \<Rightarrow> bool" where
  "is_digit c = (c \<in> set ''0123456789'')"

definition digit_value :: "char \<Rightarrow> nat" where
  "digit_value c =
     (if is_digit c then of_char c - 48
      else if c \<in> set ''abcdef'' then of_char c - 87
      else of_char c - 55)"

definition digits_value :: "nat \<Rightarrow> string \<Rightarrow> nat" where
  "digits_value base cs = foldl (\<lambda>acc c. acc * base + digit_value c) 0 cs"

definition decimal_digits :: "string \<Rightarrow> nat option" where
  "decimal_digits cs =
     (if cs = [] then None
      else if list_all is_digit cs then Some (digits_value 10 cs) else None)"

definition exponent_part :: "string \<Rightarrow> int option" where
  "exponent_part r =
     (case r of
        [] \<Rightarrow> Some 0
      | c # cs \<Rightarrow>
          if c \<in> set ''eE'' then
            (case cs of
               [] \<Rightarrow> None
             | d # ds \<Rightarrow>
                 if d = CHR ''+'' then map_option int (decimal_digits ds)
                 else if d = CHR ''-'' then map_option (\<lambda>n. - int n) (decimal_digits ds)
                 else map_option int (decimal_digits cs))
          else None)"

definition scale10 :: "rat \<Rightarrow> int \<Rightarrow> rat" where
  "scale10 x e = (if 0 \<le> e then x * 10 ^ nat e else x / 10 ^ nat (- e))"

definition unsigned_decimal :: "string \<Rightarrow> number" where
  "unsigned_decimal s =
     (if s = ''Infinity'' then PosInfinity
      else
        let ip = takeWhile is_digit s;
            r1 = dropWhile is_digit s;
            fp = (case r1 of [] \<Rightarrow> [] | c # cs \<Rightarrow> if c = CHR ''.'' then takeWhile is_digit cs else []);
            r2 = (case r1 of [] \<Rightarrow> [] | c # cs \<Rightarrow> if c = CHR ''.'' then dropWhile is_digit cs else r1)
        in if ip = [] \<and> fp = [] then NaN
           else
             (case exponent_part r2 of
                None \<Rightarrow> NaN
              | Some e \<Rightarrow>
                  Num (scale10 (of_nat (digits_value 10 ip)
                                + of_nat (digits_value 10 fp) / 10 ^ length fp) e)))"

definition negate :: "number \<Rightarrow> number" where
  "negate n =
     (case n of NaN \<Rightarrow> NaN | Num r \<Rightarrow> Num (- r)
      | PosInfinity \<Rightarrow> NegInfinity | NegInfinity \<Rightarrow> PosInfinity)"

definition signed_decimal :: "string \<Rightarrow> number" where
  "signed_decimal s =
     (case s of
        [] \<Rightarrow> NaN
      | c # cs \<Rightarrow>
          if c = CHR ''+'' then unsigned_decimal cs
          else if c = CHR ''-'' then negate (unsigned_decimal cs)
          else unsigned_decimal s)"

definition radix_literal :: "string \<Rightarrow> string \<Rightarrow> nat \<Rightarrow> string \<Rightarrow> number" where
  "radix_literal allowed marks base s =
     (case s of
        z # m # ds \<Rightarrow>
          if z = CHR ''0'' \<and> m \<in> set marks \<and> ds \<noteq> [] \<and> list_all (\<lambda>c. c \<in> set allowed) ds
          then Num (of_nat (digits_value base ds)) else NaN
      | _ \<Rightarrow> NaN)"

definition has_radix_mark :: "string \<Rightarrow> bool" where
  "has_radix_mark s =
     (case s of z # m # ds \<Rightarrow> z = CHR ''0'' \<and> m \<in> set ''xXoObB'' | _ \<Rightarrow> False)"

definition StringToNumber :: "string \<Rightarrow> number" where
  "StringToNumber s =
     (let t = trim s in
      if t = [] then Num 0
      else if has_radix_mark t then
        (if t ! 1 \<in> set ''xX'' then radix_literal ''0123456789abcdefABCDEF'' ''xX'' 16 t
         else if t ! 1 \<in> set ''oO'' then radix_literal ''01234567'' ''oO'' 8 t
         else radix_literal ''01'' ''bB'' 2 t)
      else signed_decimal t)"

subsection \<open>Patterns: \<^verbatim>\<open>new RegExp(source, "i")\<close> and \<^verbatim>\<open>$regex\<close>\<close>

text \<open>
  The author route hands its raw parameter to \<^verbatim>\<open>new RegExp\<close> as the pattern's
  source. Only a fragment of the pattern language is interpreted here:
  \<^item> a character that is not a syntax character of the language stands for itself;
  \<^item> \<^verbatim>\<open>.\<close> stands for any character but a line feed;
  \<^item> a source that begins with a quantifier (\<^verbatim>\<open>*\<close>, \<^verbatim>\<open>+\<close>, \<^verbatim>\<open>?\<close>) has
    nothing to repeat: the constructor throws \<^verbatim>\<open>SyntaxError\<close>;
  \<^item> every other source is \<open>OutsideModel\<close>: no statement below is about it.
  With the flag \<^verbatim>\<open>i\<close> two characters agree when their upper-case forms do.
  A pattern is searched for: it matches a text when it matches at some position.
\<close>

datatype pat_item = PChar char | PAny

definition syntax_characters :: string where
  "syntax_characters = CHR 0x5C # ''^$.*+?()[]{}|''"

definition is_plain :: "char \<Rightarrow> bool" where
  "is_plain c = (c \<notin> set syntax_characters)"

definition in_fragment :: "char \<Rightarrow> bool" where
  "in_fragment c = (if c = CHR ''.'' then True else is_plain c)"

definition item_of :: "char \<Rightarrow> pat_item" where
  "item_of c = (if c = CHR ''.'' then PAny else PChar c)"

definition RegExp_parse :: "string \<Rightarrow> js_error + pat_item list" where
  "RegExp_parse source =
     (case source of
        [] \<Rightarrow> Inr []
      | c # cs \<Rightarrow>
          if c \<in> set ''*+?'' then Inl SyntaxError
          else if list_all in_fragment source then Inr (map item_of source)
          else Inl OutsideModel)"

definition new_RegExp_i :: "string \<Rightarrow> (pat_item list) io" where
  "new_RegExp_i source =
     (case RegExp_parse source of Inl e \<Rightarrow> throw_io e | Inr p \<Rightarrow> return_io p)"

definition upper :: "char \<Rightarrow> char" where
  "upper c =
     (case map_of (zip ''abcdefghijklmnopqrstuvwxyz'' ''ABCDEFGHIJKLMNOPQRSTUVWXYZ'') c of
        Some u \<Rightarrow> u
      | None \<Rightarrow> c)"

definition item_matches :: "pat_item \<Rightarrow> char \<Rightarrow> bool" where
  "item_matches p c = (case p of PChar x \<Rightarrow> upper x = upper c | PAny \<Rightarrow> c \<noteq> CHR 0x0A)"

fun match_here :: "pat_item list \<Rightarrow> string \<Rightarrow> bool" where
  "match_here [] s = True"
| "match_here (p # ps) [] = False"
| "match_here (p # ps) (c # cs) = (item_matches p c \<and> match_here ps cs)"

fun regex_test :: "pat_item list \<Rightarrow> string \<Rightarrow> bool" where
  "regex_test ps [] = match_here ps []"
| "regex_test ps (c # cs) = (match_here ps (c # cs) \<or> regex_test ps cs)"

subsection \<open>Mongoose: \<^verbatim>\<open>Book.find\<close> and \<^verbatim>\<open>Book.findOne\<close>\<close>

text \<open>
  The filter documents of the source, one constructor for each shape it writes:
  \<^verbatim>\<open>{ bookID: raw }\<close>, \<^verbatim>\<open>{ authors: { $regex: re } }\<close>,
  \<^verbatim>\<open>{ average_rating: { $gte: x } }\<close> and \<^verbatim>\<open>{ num_pages: { $lte: x } }\<close>.
  A filter is the conjunction of its conditions; the empty filter selects every record.
\<close>

datatype condition =
    BookID_is string
  | Authors_regex "pat_item list"
  | Average_rating_gte rat
  | Num_pages_lte rat

text \<open>
  \<open>castNumber\<close> is Mongoose's cast of a string to a \<^verbatim>\<open>Number\<close> path: the empty
  string is \<^verbatim>\<open>null\<close>, a string whose \<^verbatim>\<open>Number\<close> is NaN fails the cast, any
  other string is its number. No record of the store has a \<^verbatim>\<open>null\<close> or an infinite
  \<open>bookID\<close>.
\<close>

definition castNumber :: "string \<Rightarrow> js_error + number option" where
  "castNumber val =
     (if val = [] then Inr None
      else (case StringToNumber val of NaN \<Rightarrow> Inl CastError | n \<Rightarrow> Inr (Some n)))"

definition cast_condition :: "condition \<Rightarrow> js_error + (book \<Rightarrow> bool)" where
  "cast_condition c =
     (case c of
        BookID_is raw \<Rightarrow>
          (case castNumber raw of
             Inl e \<Rightarrow> Inl e
           | Inr None \<Rightarrow> Inr (\<lambda>b. False)
           | Inr (Some n) \<Rightarrow> Inr (\<lambda>b. Num (bookID b) = n))
      | Authors_regex re \<Rightarrow> Inr (\<lambda>b. regex_test re (authors b))
      | Average_rating_gte x \<Rightarrow> Inr (\<lambda>b. x \<le> average_rating b)
      | Num_pages_lte x \<Rightarrow> Inr (\<lambda>b. num_pages b \<le> x))"

fun cast_filter :: "condition list \<Rightarrow> js_error + (book \<Rightarrow> bool)" where
  "cast_filter [] = Inr (\<lambda>b. True)"
| "cast_filter (c # cs) =
     (case cast_condition c of
        Inl e \<Rightarrow> Inl e
      | Inr p \<Rightarrow> (case cast_filter cs of Inl e \<Rightarrow> Inl e | Inr q \<Rightarrow> Inr (\<lambda>b. p b \<and> q b)))"

text \<open>
  A query is cast first and then sent: a value that does not fit rejects the query
  before the store is asked. \<open>Book_find\<close> gives the matching records in store order,
  \<open>Book_findOne\<close> the first of them or \<^verbatim>\<open>null\<close>. Neither writes to the store.
\<close>

definition Book_find :: "condition list \<Rightarrow> (book list) io" where
  "Book_find conditions w =
     (case cast_filter conditions of
        Inl e \<Rightarrow> (Inl e, w)
      | Inr p \<Rightarrow>
          (case store w of
             Unavailable \<Rightarrow> (Inl StoreError, w)
           | Available bs \<Rightarrow> (Inr (filter p bs), w)))"

definition Book_findOne :: "condition list \<Rightarrow> (book option) io" where
  "Book_findOne conditions w =
     (case cast_filter conditions of
        Inl e \<Rightarrow> (Inl e, w)
      | Inr p \<Rightarrow>
          (case store w of
             Unavailable \<Rightarrow> (Inl StoreError, w)
           | Available bs \<Rightarrow> (Inr (List.find p bs), w)))"

section \<open>The routes\<close>

text \<open>
  \<^verbatim>\<open>req.query.quickRead\<close> as the query parser leaves it: absent, a string (empty for
  \<^verbatim>\<open>?quickRead=\<close> and \<^verbatim>\<open>?quickRead\<close>), or an array or object
  (\<^verbatim>\<open>?quickRead[]=1\<close>). \<open>truthy\<close> is the test of \<^verbatim>\<open>if (quickReadParam)\<close>.
\<close>

datatype query_value = Undefined | QString string | QNested

definition truthy :: "query_value \<Rightarrow> bool" where
  "truthy v = (case v of Undefined \<Rightarrow> False | QString s \<Rightarrow> s \<noteq> [] | QNested \<Rightarrow> True)"

definition greeting :: string where
  "greeting = ''Hello world, welcome to Vane Bookish API, now powered by MongoDB!''"

definition no_book_message :: string where
  "no_book_message = ''Sorry, no books found with that ID :(''"

definition invalid_id_message :: string where
  "invalid_id_message = ''Invalid Book ID, double check book id value''"

definition no_author_message :: string where
  "no_author_message =
     ''Sorry, could not find any books by thay author, double check author name :(''"

text \<open>\<^verbatim>\<open>app.get('/')\<close>\<close>

definition get_root :: "unit io" where
  "get_root = res_send greeting"

text \<open>\<^verbatim>\<open>app.get('/books')\<close>\<close>

definition get_books :: "unit io" where
  "get_books = bind_io (Book_find []) (\<lambda>allBooks. res_json (JBooks allBooks))"

text \<open>\<^verbatim>\<open>app.get('/books/book/:bookID')\<close>: the only handler with a \<^verbatim>\<open>try\<close>.\<close>

definition get_book :: "string \<Rightarrow> unit io" where
  "get_book bookID_param =
     try_catch
       (bind_io (Book_findOne [BookID_is bookID_param]) (\<lambda>singleBook.
          case singleBook of
            Some b \<Rightarrow> res_json (JBook b)
          | None \<Rightarrow> bind_io (res_status 404) (\<lambda>_. res_json (JString no_book_message))))
       (\<lambda>err. bind_io (res_status 400) (\<lambda>_. res_json (JError invalid_id_message)))"

text \<open>
  \<^verbatim>\<open>app.get('/books/authors/:authorName')\<close>: after the 404 of the empty case the
  handler goes on to \<^verbatim>\<open>res.json(authorBooks)\<close>.
\<close>

definition get_authors :: "string \<Rightarrow> unit io" where
  "get_authors paramsAuthorName =
     bind_io (new_RegExp_i paramsAuthorName) (\<lambda>re.
     bind_io (Book_find [Authors_regex re]) (\<lambda>authorBooks.
     bind_io (if length authorBooks = 0
              then bind_io (res_status 404) (\<lambda>_. res_json (JString no_author_message))
              else return_io ()) (\<lambda>_.
     res_json (JBooks authorBooks))))"

text \<open>
  \<^verbatim>\<open>app.get('/books/top-rated')\<close>: the first query runs whatever the flag is, and
  after the \<^verbatim>\<open>if\<close> the handler goes on to \<^verbatim>\<open>res.json(topBooks)\<close>.
\<close>

definition get_top_rated :: "query_value \<Rightarrow> unit io" where
  "get_top_rated quickReadParam =
     bind_io (Book_find [Average_rating_gte 4]) (\<lambda>topBooks.
     bind_io (if truthy quickReadParam
              then bind_io (Book_find [Average_rating_gte 4, Num_pages_lte 600])
                     (\<lambda>topQuickReadBooks. res_json (JBooks topQuickReadBooks))
              else return_io ()) (\<lambda>_.
     res_json (JBooks topBooks)))"

datatype request =
    Root
  | Books
  | Book string
  | Authors string
  | TopRated query_value

definition handle :: "request \<Rightarrow> unit io" where
  "handle rq =
     (case rq of
        Root \<Rightarrow> get_root
      | Books \<Rightarrow> get_books
      | Book bookID_param \<Rightarrow> get_book bookID_param
      | Authors paramsAuthorName \<Rightarrow> get_authors paramsAuthorName
      | TopRated quickReadParam \<Rightarrow> get_top_rated quickReadParam)"

text \<open>The records of the spec's concrete scenario; fields it leaves open are empty or 0.\<close>

definition king :: book where
  "king = \<lparr>bookID = 1, title = [], authors = ''Stephen King'', average_rating = 9 / 2,
     isbn = [], isbn13 = 0, language_code = [], num_pages = 500, ratings_count = 0,
     text_reviews_count = 0\<rparr>"

definition rowling :: book where
  "rowling = \<lparr>bookID = 2, title = [], authors = ''J.K. Rowling'', average_rating = 39 / 10,
     isbn = [], isbn13 = 0, language_code = [], num_pages = 700, ratings_count = 0,
     text_reviews_count = 0\<rparr>"

definition tolkien :: book where
  "tolkien = \<lparr>bookID = 3, title = [], authors = ''J.R.R. Tolkien'', average_rating = 43 / 10,
     isbn = [], isbn13 = 0, language_code = [], num_pages = 1200, ratings_count = 0,
     text_reviews_count = 0\<rparr>"

section \<open>Start-up and the seed loader\<close>











section \<open>Notions of the specification\<close>

text \<open>The world after a handler wrote one response with status \<open>c\<close> and body \<open>v\<close>.\<close>

definition written :: "nat \<Rightarrow> body \<Rightarrow> store_state \<Rightarrow> world" where
  "written c v db =
     \<lparr>store = db, res = \<lparr>statusCode = c, sent = Some \<lparr>status = c, payload = v\<rparr>\<rparr>\<rparr>"




text \<open>
  The specification's reading of the two parameters, in its own words: a text that
  parses as an integer is an optional sign and one or more decimal digits; a text
  \<open>t\<close> contains \<open>s\<close> as a case-insensitive literal substring when \<open>s\<close>, character by
  character and up to case, stands at some position of \<open>t\<close>.
\<close>

definition integer_text :: "string \<Rightarrow> bool" where
  "integer_text s =
     (case s of
        [] \<Rightarrow> False
      | c # cs \<Rightarrow>
          if c \<in> set ''+-'' then (cs \<noteq> [] \<and> list_all is_digit cs) else list_all is_digit s)"

fun starts_with_ci :: "string \<Rightarrow> string \<Rightarrow> bool" where
  "starts_with_ci [] t = True"
| "starts_with_ci (a # s) [] = False"
| "starts_with_ci (a # s) (b # t) = (upper a = upper b \<and> starts_with_ci s t)"

fun contains_ci :: "string \<Rightarrow> string \<Rightarrow> bool" where
  "contains_ci s [] = starts_with_ci s []"
| "contains_ci s (b # t) = (starts_with_ci s (b # t) \<or> contains_ci s t)"

section \<open>Facts about the handlers\<close>

lemmas io_defs = return_io_def throw_io_def bind_io_def try_catch_def res_status_def
  res_write_def res_json_def res_send_def incoming_def fresh_res_def written_def
  Book_find_def Book_findOne_def

lemmas pattern_defs = new_RegExp_i_def RegExp_parse_def in_fragment_def is_plain_def
  syntax_characters_def item_of_def item_matches_def upper_def

lemmas number_defs = castNumber_def StringToNumber_def trim_def is_space_def
  has_radix_mark_def radix_literal_def signed_decimal_def unsigned_decimal_def negate_def
  is_digit_def exponent_part_def decimal_digits_def digits_value_def digit_value_def
  scale10_def Let_def

subsection \<open>The store is only read\<close>

lemma bind_store:
  assumes "\<And>w. store (snd (m w)) = store w" and "\<And>x w. store (snd (f x w)) = store w"
  shows "store (snd (bind_io m f w)) = store w"
  using assms(1)[of w] assms(2) by (auto simp: bind_io_def split: prod.splits sum.splits)

lemma catch_store:
  assumes "\<And>w. store (snd (m w)) = store w" and "\<And>x w. store (snd (h x w)) = store w"
  shows "store (snd (try_catch m h w)) = store w"
  using assms(1)[of w] assms(2) by (auto simp: try_catch_def split: prod.splits sum.splits)

lemma prim_store:
  "store (snd (res_status c w)) = store w"
  "store (snd (res_json v w)) = store w"
  "store (snd (res_send t w)) = store w"
  "store (snd (return_io x w)) = store w"
  "store (snd (Book_find q w)) = store w"
  "store (snd (Book_findOne q w)) = store w"
  "store (snd (new_RegExp_i src w)) = store w"
  by (auto simp: res_status_def res_json_def res_send_def res_write_def return_io_def
      throw_io_def Book_find_def Book_findOne_def new_RegExp_i_def
      split: option.splits sum.splits store_state.splits)

lemma get_book_store: "store (snd (get_book p w)) = store w"
  unfolding get_book_def
  by (intro catch_store bind_store prim_store)
    (auto split: option.splits intro!: bind_store prim_store)

lemma get_authors_store: "store (snd (get_authors p w)) = store w"
  unfolding get_authors_def
  by (intro bind_store prim_store) (auto intro!: bind_store prim_store)

lemma get_top_rated_store: "store (snd (get_top_rated q w)) = store w"
  unfolding get_top_rated_def
  by (intro bind_store prim_store) (auto intro!: bind_store prim_store)

lemma handle_store: "store (snd (handle rq w)) = store w"
  by (cases rq)
    (simp_all add: handle_def get_root_def get_books_def bind_store prim_store
      get_book_store get_authors_store get_top_rated_store)

subsection \<open>The responses of the routes\<close>


lemma top_rated_plain:
  "\<not> truthy q \<Longrightarrow> get_top_rated q (incoming (Available bs)) =
     (Inr (), written 200 (JBooks (filter (\<lambda>b. 4 \<le> average_rating b) bs)) (Available bs))"
  by (simp add: get_top_rated_def io_defs cast_condition_def)

lemma top_rated_quick:
  "truthy q \<Longrightarrow> get_top_rated q (incoming (Available bs)) =
     (Inl ERR_HTTP_HEADERS_SENT,
      written 200 (JBooks (filter (\<lambda>b. 4 \<le> average_rating b \<and> num_pages b \<le> 600) bs))
        (Available bs))"
  by (simp add: get_top_rated_def io_defs cast_condition_def)


lemma get_book_cast_error:
  assumes "castNumber S = Inl e"
  shows "get_book S (incoming db) = (Inr (), written 400 (JError invalid_id_message) db)"
  using assms by (simp add: get_book_def io_defs cast_condition_def)


subsection \<open>\<^verbatim>\<open>Number\<close> on decimal texts\<close>


















lemma StringToNumber_empty: "StringToNumber [] = Num 0"
  by (simp add: StringToNumber_def trim_def)

lemma castNumber_NaN: "StringToNumber S = NaN \<Longrightarrow> castNumber S = Inl CastError"
  by (auto simp: castNumber_def StringToNumber_empty)


subsection \<open>Patterns without syntax characters\<close>

lemma match_here_plain: "match_here (map PChar s) t = starts_with_ci s t"
  by (induction s t rule: starts_with_ci.induct) (simp_all add: item_matches_def)

lemma regex_test_plain: "regex_test (map PChar s) t = contains_ci s t"
  by (induction t) (simp_all add: match_here_plain)

lemma plain_items: "list_all is_plain s \<Longrightarrow> map item_of s = map PChar s"
  by (induction s) (auto simp: item_of_def is_plain_def syntax_characters_def)

lemma RegExp_parse_plain:
  assumes "list_all is_plain s"
  shows "RegExp_parse s = Inr (map PChar s)"
proof (cases s)
  case Nil
  then show ?thesis by (simp add: RegExp_parse_def)
next
  case (Cons c cs)
  with assms have "is_plain c" by simp
  then have "c \<notin> set ''*+?''" by (auto simp: is_plain_def syntax_characters_def)
  moreover from assms have "list_all in_fragment s"
    by (auto simp: list_all_iff in_fragment_def)
  ultimately show ?thesis using Cons assms plain_items[OF assms]
    by (simp add: RegExp_parse_def)
qed

lemma get_authors_plain:
  assumes "list_all is_plain s"
  shows "get_authors s (incoming (Available bs)) =
    (if filter (\<lambda>b. contains_ci s (authors b)) bs = []
     then (Inl ERR_HTTP_HEADERS_SENT, written 404 (JString no_author_message) (Available bs))
     else (Inr (), written 200 (JBooks (filter (\<lambda>b. contains_ci s (authors b)) bs))
             (Available bs)))"
  by (simp add: get_authors_def new_RegExp_i_def RegExp_parse_plain[OF assms] io_defs
      cast_condition_def regex_test_plain)

subsection \<open>Schedules of the seed loader\<close>







section \<open>The claims\<close>

text \<open>
  C1 (top-rated: one response per request). At
  \<^verbatim>\<open>GET /books/top-rated?quickRead=true\<close> on the three records of the scenario the
  handler runs both queries, writes the quick-read list and then calls
  \<^verbatim>\<open>res.json(topBooks)\<close> as well: the second call finds the response already
  written and throws, so the handler issues two responses where the property asks for
  exactly one. The list of the second call holds a record the first does not.
\<close>

theorem top_rated_two_responses:
  "get_top_rated (QString ''true'') (incoming (Available [king, rowling, tolkien])) =
     (Inl ERR_HTTP_HEADERS_SENT,
      written 200 (JBooks [king]) (Available [king, rowling, tolkien]))
   \<and> filter (\<lambda>b. 4 \<le> average_rating b) [king, rowling, tolkien] = [king, tolkien]"
  by (simp add: top_rated_quick truthy_def king_def rowling_def tolkien_def)

text \<open>
  C2 (author search: literal, case-insensitive substring). At
  \<^verbatim>\<open>GET /books/authors/K.ng\<close> the raw text is the pattern's source, unescaped, and
  its \<^verbatim>\<open>.\<close> stands for any character: the handler answers 200 with the record of
  Stephen King, whose \<open>authors\<close> does not contain \<^verbatim>\<open>K.ng\<close> as a literal substring.
\<close>

theorem author_pattern_not_literal:
  "get_authors ''K.ng'' (incoming (Available [king, rowling])) =
     (Inr (), written 200 (JBooks [king]) (Available [king, rowling]))
   \<and> contains_ci ''K.ng'' (authors king) = False"
  by (simp add: get_authors_def pattern_defs io_defs cast_condition_def king_def rowling_def)

text \<open>
  C3 (every route catches its failures). At \<^verbatim>\<open>GET /books/authors/*\<close> the
  constructor of the pattern throws and nothing catches it: the handler ends with the
  error and no response. A query the store rejects ends \<^verbatim>\<open>GET /books\<close> and
  \<^verbatim>\<open>GET /books/top-rated\<close> the same way. The one handler with a \<^verbatim>\<open>try\<close>,
  \<^verbatim>\<open>GET /books/book/:bookID\<close>, answers a rejected query with 400 and the
  invalid-id body, not with 500.
\<close>

theorem failures_not_caught:
  "get_authors ''*'' (incoming (Available [king, rowling])) =
     (Inl SyntaxError, incoming (Available [king, rowling]))
   \<and> get_books (incoming Unavailable) = (Inl StoreError, incoming Unavailable)
   \<and> get_top_rated Undefined (incoming Unavailable) = (Inl StoreError, incoming Unavailable)
   \<and> get_book ''1'' (incoming Unavailable) =
       (Inr (), written 400 (JError invalid_id_message) Unavailable)"
  by (simp add: get_authors_def get_books_def get_top_rated_def get_book_def pattern_defs
      io_defs cast_condition_def number_defs)

text \<open>
  C4, as stated, fails: \<^verbatim>\<open>.5\<close> does not parse as an integer, yet
  \<^verbatim>\<open>GET /books/book/.5\<close> is answered 404 with the no-book message. The path's
  type is \<^verbatim>\<open>Number\<close>: the text is cast to 0.5 and looked up.
\<close>

theorem invalid_id_counterexample:
  "integer_text ''.5'' = False
   \<and> get_book ''.5'' (incoming (Available [king, rowling])) =
       (Inr (), written 404 (JString no_book_message) (Available [king, rowling]))"
  by (simp add: integer_text_def get_book_def io_defs cast_condition_def number_defs
      king_def rowling_def)

text \<open>
  C4, amended: for every string \<open>S\<close> that \<^verbatim>\<open>Number\<close> does not convert to a number
  (its value is NaN), \<^verbatim>\<open>GET /books/book/S\<close> responds 400 with the body
  \<^verbatim>\<open>{error: "Invalid Book ID, double check book id value"}\<close>, whatever the state of
  the store.
\<close>

theorem not_a_number_is_400:
  "StringToNumber S = NaN \<Longrightarrow>
     get_book S (incoming db) = (Inr (), written 400 (JError invalid_id_message) db)"
  by (simp add: get_book_cast_error castNumber_NaN)

text \<open>C4, amended, at \<^verbatim>\<open>GET /books/book/abc\<close>.\<close>

theorem not_a_number_is_400_witness:
  "StringToNumber ''abc'' = NaN
   \<and> get_book ''abc'' (incoming (Available [king, rowling])) =
       (Inr (), written 400 (JError invalid_id_message) (Available [king, rowling]))"
proof -
  have h: "StringToNumber ''abc'' = NaN" by (simp add: number_defs)
  show ?thesis using h not_a_number_is_400 [OF h, of "Available [king, rowling]"] by simp
qed



text \<open>
  C6 (quick read). For every request \<^verbatim>\<open>GET /books/top-rated\<close> whose
  \<^verbatim>\<open>quickRead\<close> parameter is a non-empty string, \<^verbatim>\<open>false\<close> included, the
  response written is 200 with exactly the records that have \<open>average_rating \<ge> 4\<close>
  and \<open>num_pages \<le> 600\<close>, in store order. (The handler then throws, as C1 describes;
  the response stays the one written.)
\<close>

theorem quick_read_set:
  "s \<noteq> [] \<Longrightarrow>
     get_top_rated (QString s) (incoming (Available bs)) =
       (Inl ERR_HTTP_HEADERS_SENT,
        written 200
          (JBooks (filter (\<lambda>b. 4 \<le> average_rating b \<and> num_pages b \<le> 600) bs))
          (Available bs))"
  by (simp add: top_rated_quick truthy_def)

text \<open>C6 at \<^verbatim>\<open>GET /books/top-rated?quickRead=false\<close> on the scenario's records.\<close>

theorem quick_read_set_witness:
  "''false'' \<noteq> []
   \<and> get_top_rated (QString ''false'') (incoming (Available [king, rowling, tolkien])) =
       (Inl ERR_HTTP_HEADERS_SENT,
        written 200 (JBooks [king]) (Available [king, rowling, tolkien]))"
proof -
  have h: "''false'' \<noteq> []" by simp
  show ?thesis
    using h quick_read_set [OF h, of "[king, rowling, tolkien]"]
    by (simp add: king_def rowling_def tolkien_def)
qed

text \<open>
  C7 (author search without a match: 404 and nothing else). At
  \<^verbatim>\<open>GET /books/authors/zzz\<close> no record matches: the handler writes the 404 with its
  message and then calls \<^verbatim>\<open>res.json(authorBooks)\<close> as well, a second response,
  which throws because the first is written.
\<close>

theorem no_author_second_response:
  "get_authors ''zzz'' (incoming (Available [king, rowling, tolkien])) =
     (Inl ERR_HTTP_HEADERS_SENT,
      written 404 (JString no_author_message) (Available [king, rowling, tolkien]))"
  by (simp add: get_authors_def pattern_defs io_defs cast_condition_def king_def rowling_def
      tolkien_def)




text \<open>
  C9 (requests only read). Whatever the request to one of the five routes and whatever
  the world it meets, the store after the handler is the store before it: no record is
  created, changed or deleted.
\<close>

theorem requests_keep_store: "store (snd (handle rq w)) = store w"
  by (rule handle_store)

text \<open>
  C10 (empty quick-read value). At \<^verbatim>\<open>GET /books/top-rated?quickRead=\<close> the flag
  counts as absent: the handler returns normally after one response, 200 with exactly
  the records that have \<open>average_rating \<ge> 4\<close>; the bound on \<open>num_pages\<close> is not applied.
\<close>

theorem empty_quick_read_is_absent:
  "get_top_rated (QString []) (incoming (Available bs)) =
     (Inr (), written 200 (JBooks (filter (\<lambda>b. 4 \<le> average_rating b) bs)) (Available bs))"
  by (simp add: top_rated_plain truthy_def)

end
